theory Spec2Isabelle
  imports Complex_Main "HOL-Library.Word"
begin

section \<open>Numeric types of the simulation\<close>

text \<open>
  The C++ sources compute in \<^verbatim>\<open>double\<close> and store results in the working precision
  \<^verbatim>\<open>float_X\<close>. Both are modelled by the real numbers: arithmetic is exact, there is
  no rounding and there are no infinities or NaN; the one division by zero that decides
  a property below, the one by a zero \<^verbatim>\<open>PULSE_LENGTH\<close>, is written out in
  \<open>envelope_double\<close>. The narrowing conversion
  \<^verbatim>\<open>float_X( ... )\<close> is kept as a named function so that the definitions below read
  like the source; on reals it is the identity.
\<close>

type_synonym float_X = real
type_synonym float_64 = real

definition float_X :: "real \<Rightarrow> float_X" where
  "float_X v = v"

text \<open>\<^verbatim>\<open>float3_X\<close>: a vector of three working-precision components.\<close>

record float3_X =
  comp_x :: float_X
  comp_y :: float_X
  comp_z :: float_X

text \<open>\<^verbatim>\<open>float3_X::create(v)\<close> sets every component to \<open>v\<close>.\<close>

definition create :: "float_X \<Rightarrow> float3_X" where
  "create v = \<lparr>comp_x = v, comp_y = v, comp_z = v\<rparr>"


section \<open>The plane-wave laser profile (laserPlaneWave.hpp)\<close>

text \<open>
  Modelled from the spec: the enumeration \<^verbatim>\<open>PolarisationType\<close> is declared outside
  the sources at hand; the spec names its three modes. A C++ enumeration object can
  hold a value that is none of its enumerators, which is the case the source's
  \<^verbatim>\<open>if / else if / else if\<close> chain without a final \<^verbatim>\<open>else\<close> falls through on;
  \<open>UNNAMED n\<close> stands for such a value.
\<close>

datatype PolarisationType = LINEAR_X | LINEAR_Z | CIRCULAR | UNNAMED nat

text \<open>
  The constants that \<^verbatim>\<open>laserLongitudinal\<close> reads from \<^verbatim>\<open>simulation_defines.hpp\<close>
  are not part of the sources at hand; they are the fields of the configuration.
  \<^verbatim>\<open>PI\<close> is \<^term>\<open>pi\<close>.
\<close>

record laser_config =
  DELTA_T :: real
  SPEED_OF_LIGHT :: real
  WAVE_LENGTH :: real
  AMPLITUDE :: real
  RAMP_INIT :: real
  PULSE_LENGTH :: real
  LASER_NOFOCUS_CONSTANT :: real
  LASER_PHASE :: real
  Polarisation :: PolarisationType

text \<open>Line 62: \<^verbatim>\<open>runTime = DELTA_T*currentStep\<close>, with \<^verbatim>\<open>uint32_t currentStep\<close>.\<close>

definition runTime :: "laser_config \<Rightarrow> 32 word \<Rightarrow> real" where
  "runTime cfg currentStep = DELTA_T cfg * real (unat currentStep)"

text \<open>Lines 68, 72 and 73: \<^verbatim>\<open>mue\<close>, \<^verbatim>\<open>endUpramp\<close> and \<^verbatim>\<open>startDownramp\<close>.\<close>

definition mue :: "laser_config \<Rightarrow> real" where
  "mue cfg = 0.5 * RAMP_INIT cfg * PULSE_LENGTH cfg"

definition endUpramp :: "laser_config \<Rightarrow> real" where
  "endUpramp cfg = mue cfg"

definition startDownramp :: "laser_config \<Rightarrow> real" where
  "startDownramp cfg = mue cfg + LASER_NOFOCUS_CONSTANT cfg"

text \<open>
  Lines 65 and 75 to 92: the values of the local variables \<^verbatim>\<open>envelope\<close> and
  \<^verbatim>\<open>integrationCorrectionFactor\<close> after the ramp selection, as a function of
  \<^verbatim>\<open>runTime\<close>. The downramp test comes first, as in the source. The quotients are
  those of the reals, so these are the source's values for \<^verbatim>\<open>PULSE_LENGTH\<close> other
  than 0; for a zero \<^verbatim>\<open>PULSE_LENGTH\<close> see \<open>envelope_double\<close>.
\<close>

definition envelopeAndCorrection :: "laser_config \<Rightarrow> real \<Rightarrow> real \<times> real" where
  "envelopeAndCorrection cfg t =
     (let envelope = AMPLITUDE cfg;
          integrationCorrectionFactor = 0
      in if t > startDownramp cfg then
           (let exponent = (t - startDownramp cfg) / PULSE_LENGTH cfg / sqrt 2
            in (envelope * exp (- 0.5 * exponent * exponent),
                (t - startDownramp cfg) / (2 * PULSE_LENGTH cfg * PULSE_LENGTH cfg)))
         else if t < endUpramp cfg then
           (let exponent = (t - endUpramp cfg) / PULSE_LENGTH cfg / sqrt 2
            in (envelope * exp (- 0.5 * exponent * exponent),
                (t - endUpramp cfg) / (2 * PULSE_LENGTH cfg * PULSE_LENGTH cfg)))
         else (envelope, integrationCorrectionFactor))"

definition envelope :: "laser_config \<Rightarrow> real \<Rightarrow> real" where
  "envelope cfg t = fst (envelopeAndCorrection cfg t)"

definition integrationCorrectionFactor :: "laser_config \<Rightarrow> real \<Rightarrow> real" where
  "integrationCorrectionFactor cfg t = snd (envelopeAndCorrection cfg t)"

text \<open>
  Lines 65 and 77 to 92 again, for the local \<^verbatim>\<open>envelope\<close> alone, with the division by
  a zero \<^verbatim>\<open>PULSE_LENGTH\<close> as double arithmetic computes it. Inside a ramp the
  difference \<^verbatim>\<open>runTime - startDownramp\<close> (or \<^verbatim>\<open>runTime - endUpramp\<close>) is not zero, so
  its quotient by zero is an infinity, \<^verbatim>\<open>exponent * exponent\<close> is plus infinity,
  \<^verbatim>\<open>exp( -0.5 * exponent * exponent )\<close> is 0 and \<^verbatim>\<open>envelope *= 0\<close>. (The correction
  factor is an infinity there and has no real value.) For every other
  \<^verbatim>\<open>PULSE_LENGTH\<close> this is \<open>envelope\<close>.
\<close>

definition envelope_double :: "laser_config \<Rightarrow> real \<Rightarrow> real" where
  "envelope_double cfg t =
     (let envelope = AMPLITUDE cfg
      in if t > startDownramp cfg then
           (if PULSE_LENGTH cfg = 0 then envelope * 0
            else (let exponent = (t - startDownramp cfg) / PULSE_LENGTH cfg / sqrt 2
                  in envelope * exp (- 0.5 * exponent * exponent)))
         else if t < endUpramp cfg then
           (if PULSE_LENGTH cfg = 0 then envelope * 0
            else (let exponent = (t - endUpramp cfg) / PULSE_LENGTH cfg / sqrt 2
                  in envelope * exp (- 0.5 * exponent * exponent)))
         else envelope)"

text \<open>Lines 63, 70, 94 and 95: the carrier frequency and the phase argument.\<close>

definition t_and_phase :: "laser_config \<Rightarrow> real \<Rightarrow> real" where
  "t_and_phase cfg t =
     (let f = SPEED_OF_LIGHT cfg / WAVE_LENGTH cfg;
          w = 2 * pi * f;
          timeOszi = t - endUpramp cfg
      in w * timeOszi + LASER_PHASE cfg)"

text \<open>
  \<^verbatim>\<open>laserLongitudinal( currentStep, phase )\<close>: the reference parameter \<^verbatim>\<open>phase\<close> is an
  argument and the second component of the result; the first component is the returned
  vector \<^verbatim>\<open>elong\<close>.
\<close>

definition laserLongitudinal :: "laser_config \<Rightarrow> 32 word \<Rightarrow> float_X \<Rightarrow> float3_X \<times> float_X" where
  "laserLongitudinal cfg currentStep phase =
     (let t = runTime cfg currentStep;
          elong = create 0;
          (env, icf) = envelopeAndCorrection cfg t;
          th = t_and_phase cfg t;
          elong =
            (if Polarisation cfg = LINEAR_X then
               elong\<lparr>comp_x := float_X (env * (sin th + cos th * icf))\<rparr>
             else if Polarisation cfg = LINEAR_Z then
               elong\<lparr>comp_z := float_X (env * (sin th + cos th * icf))\<rparr>
             else if Polarisation cfg = CIRCULAR then
               elong\<lparr>comp_x := float_X (env / sqrt 2 * (sin th + cos th * icf)),
                     comp_z := float_X (env / sqrt 2 * (cos th - sin th * icf))\<rparr>
             else elong);
          phase = float_X 0
      in (elong, phase))"

text \<open>\<^verbatim>\<open>laserTransversal( elong, phase, posX, posZ )\<close>: the three scalars are unnamed and unused.\<close>

definition laserTransversal :: "float3_X \<Rightarrow> float_X \<Rightarrow> float_X \<Rightarrow> float_X \<Rightarrow> float3_X" where
  "laserTransversal elong a b c = elong"


text \<open>
  Configurations used to exercise the theorems at concrete inputs. In
  \<open>three_regime_config\<close> the upramp ends at time 1 and the downramp starts at time 2;
  with a timestep of 1 the steps 0, 1, 2, 3 fall in the upramp, on both plateau
  boundaries and in the downramp. In \<open>overlap_config\<close> the plateau length is negative,
  so that the downramp starts (time 0) before the upramp ends (time 1). In
  \<open>zero_pulse_config\<close> the pulse length is 0 and the plateau lasts from time 0 to
  time 1.
\<close>

definition three_regime_config :: laser_config where
  "three_regime_config =
     \<lparr>DELTA_T = 1, SPEED_OF_LIGHT = 1, WAVE_LENGTH = 4, AMPLITUDE = 2, RAMP_INIT = 2,
      PULSE_LENGTH = 1, LASER_NOFOCUS_CONSTANT = 1, LASER_PHASE = 0,
      Polarisation = LINEAR_X\<rparr>"

definition overlap_config :: laser_config where
  "overlap_config =
     \<lparr>DELTA_T = 3 / 4, SPEED_OF_LIGHT = 1, WAVE_LENGTH = 1, AMPLITUDE = 1, RAMP_INIT = 2,
      PULSE_LENGTH = 1, LASER_NOFOCUS_CONSTANT = - 1, LASER_PHASE = 0,
      Polarisation = LINEAR_X\<rparr>"

definition zero_pulse_config :: laser_config where
  "zero_pulse_config =
     \<lparr>DELTA_T = 1, SPEED_OF_LIGHT = 1, WAVE_LENGTH = 4, AMPLITUDE = 2, RAMP_INIT = 2,
      PULSE_LENGTH = 0, LASER_NOFOCUS_CONSTANT = 1, LASER_PHASE = 0,
      Polarisation = LINEAR_X\<rparr>"


section \<open>The momentum-component attribute (MomentumComponent.def)\<close>

text \<open>
  A particle as far as the attribute reads it. The identifiers that a species' frame
  declares are values of \<open>value_identifier\<close>; the source names \<^verbatim>\<open>position<>\<close> and
  \<^verbatim>\<open>momentum\<close>, the spec adds the weighting, every other one is \<open>other_identifier\<close>.
\<close>

record particle =
  particle_position :: float3_X
  particle_momentum :: float3_X

datatype value_identifier = position | momentum | weighting | other_identifier string

type_synonym frame = "value_identifier list"

record species =
  FrameType :: frame

text \<open>
  The struct template \<^verbatim>\<open>MomentumComponent< size_t T_direction >\<close>; \<^verbatim>\<open>size_t\<close> is
  an unsigned 64-bit integer.
\<close>

datatype MomentumComponent = MomentumComponent (T_direction: "64 word")

text \<open>
  Modelled from the spec: the macro \<^verbatim>\<open>PMACC_CASSERT_MSG\<close> of
  \<^verbatim>\<open>pmacc/static_assert.hpp\<close> is not among the sources at hand. A static assertion
  whose condition is false stops the build with its message; this is the error value
  of instantiating the template.
\<close>

datatype build_error = static_assertion_failed string

definition PMACC_CASSERT_MSG :: "string \<Rightarrow> bool \<Rightarrow> build_error + unit" where
  "PMACC_CASSERT_MSG msg cond = (if cond then Inr () else Inl (static_assertion_failed msg))"

text \<open>Lines 53 and 54: the two static assertions checked when the template is instantiated.\<close>

definition instantiate_MomentumComponent :: "64 word \<Rightarrow> build_error + MomentumComponent" where
  "instantiate_MomentumComponent d =
     (case PMACC_CASSERT_MSG ''Valid_directions_are_0_to_2_for_X_to_Z__in_fileOutput_param''
             (d \<ge> 0) of
        Inl e \<Rightarrow> Inl e
      | Inr _ \<Rightarrow>
     (case PMACC_CASSERT_MSG ''Valid_directions_are_0_to_2_for_X_to_Z__in_fileOutput_param''
             (d < 3) of
        Inl e \<Rightarrow> Inl e
      | Inr _ \<Rightarrow> Inr (MomentumComponent d)))"

text \<open>Lines 59 to 70: \<^verbatim>\<open>std::vector<float_64> unitDimension( 7, 0.0 )\<close>.\<close>

definition getUnitDimension :: "MomentumComponent \<Rightarrow> float_64 list" where
  "getUnitDimension this = (let unitDimension = replicate 7 0 in unitDimension)"

text \<open>Lines 72 to 77.\<close>

definition getName :: string where
  "getName = ''particleMomentumComponent''"

text \<open>
  Modelled from the spec: \<^verbatim>\<open>MomentumComponent::operator()\<close> is only declared in the
  sources at hand (lines 91 to 93); its body is missing. The spec gives its result as
  \<open>p[d] / |p|\<close> if \<open>|p| > 0\<close>, else \<open>0\<close>, for the particle's momentum \<open>p\<close> and the axis
  \<open>d\<close>. \<open>abs3\<close> is the length \<open>|p|\<close>; \<open>float3_index\<close> is \<open>p[d]\<close>, which has no value
  for an index beyond the three components.
\<close>

definition abs3 :: "float3_X \<Rightarrow> float_X" where
  "abs3 v = sqrt (comp_x v * comp_x v + comp_y v * comp_y v + comp_z v * comp_z v)"

definition float3_index :: "float3_X \<Rightarrow> nat \<Rightarrow> float_X option" where
  "float3_index v i =
     (if i = 0 then Some (comp_x v)
      else if i = 1 then Some (comp_y v)
      else if i = 2 then Some (comp_z v)
      else None)"

definition MomentumComponent_call :: "MomentumComponent \<Rightarrow> particle \<Rightarrow> float_X option" where
  "MomentumComponent_call this p =
     (let mom = particle_momentum p;
          momAbs = abs3 mom
      in if momAbs > 0 then
           (case float3_index mom (unat (T_direction this)) of
              None \<Rightarrow> None
            | Some c \<Rightarrow> Some (c / momAbs))
         else Some 0)"

text \<open>
  Modelled from the spec: the metafunction \<^verbatim>\<open>pmacc::traits::HasIdentifiers\<close> is not
  among the sources at hand. The spec describes it as the set-containment test between
  the identifiers the frame declares and the required ones.
\<close>

definition HasIdentifiers :: "frame \<Rightarrow> value_identifier list \<Rightarrow> bool" where
  "HasIdentifiers fr required = list_all (\<lambda>i. i \<in> set fr) required"

text \<open>
  Lines 100 to 120: the specialisation of \<^verbatim>\<open>SpeciesEligibleForSolver\<close> for a species
  and \<^verbatim>\<open>MomentumComponent< T_direction >\<close>.
\<close>

definition RequiredIdentifiers :: "value_identifier list" where
  "RequiredIdentifiers = [position, momentum]"

definition SpeciesEligibleForSolver :: "species \<Rightarrow> MomentumComponent \<Rightarrow> bool" where
  "SpeciesEligibleForSolver T_Species solver =
     HasIdentifiers (FrameType T_Species) RequiredIdentifiers"

text \<open>
  Two particles at the origin: one with momentum \<open>(3, 0, 4)\<close>, of length 5, and one at
  rest.
\<close>

definition particle_345 :: particle where
  "particle_345 =
     \<lparr>particle_position = create 0,
      particle_momentum = \<lparr>comp_x = 3, comp_y = 0, comp_z = 4\<rparr>\<rparr>"

definition particle_rest :: particle where
  "particle_rest = \<lparr>particle_position = create 0, particle_momentum = create 0\<rparr>"


section \<open>Properties of the laser profile\<close>

subsection \<open>Temporal regimes\<close>

lemma exponent_square:
  fixes d p :: real
  shows "- 0.5 * (d / p / sqrt 2) * (d / p / sqrt 2) = - 0.5 * ((d / (p * sqrt 2))\<^sup>2)"
  by (simp add: power2_eq_square)

text \<open>
  C1 (as amended). With \<open>endUpramp = 0.5 * RAMP_INIT * PULSE_LENGTH\<close>,
  \<open>startDownramp = endUpramp + LASER_NOFOCUS_CONSTANT\<close> and simulated time
  \<open>t = currentStep * DELTA_T\<close>, the envelope and the integration correction factor
  are selected by testing the downramp first: for \<open>t > startDownramp\<close> they are
  \<open>AMPLITUDE * exp (-0.5 * ((t - startDownramp) / (PULSE_LENGTH * sqrt 2))^2)\<close> and
  \<open>(t - startDownramp) / (2 * PULSE_LENGTH^2)\<close>; otherwise, for \<open>t < endUpramp\<close>, the
  same formulas with \<open>endUpramp\<close>; otherwise \<open>AMPLITUDE\<close> and \<open>0\<close>. When
  \<open>LASER_NOFOCUS_CONSTANT\<close> is not negative the two ramp conditions exclude each other
  and the three regimes are as the specification lists them. The statement holds at every real
  time \<open>t\<close>, in particular at \<open>runTime cfg currentStep\<close>.
\<close>

theorem laserLongitudinal_regimes:
  "endUpramp cfg = 0.5 * RAMP_INIT cfg * PULSE_LENGTH cfg \<and>
   startDownramp cfg = endUpramp cfg + LASER_NOFOCUS_CONSTANT cfg \<and>
   runTime cfg currentStep = real (unat currentStep) * DELTA_T cfg \<and>
   (envelope cfg t, integrationCorrectionFactor cfg t) =
     (if t > startDownramp cfg then
        (AMPLITUDE cfg * exp (- 0.5 * ((t - startDownramp cfg) / (PULSE_LENGTH cfg * sqrt 2))\<^sup>2),
         (t - startDownramp cfg) / (2 * (PULSE_LENGTH cfg)\<^sup>2))
      else if t < endUpramp cfg then
        (AMPLITUDE cfg * exp (- 0.5 * ((t - endUpramp cfg) / (PULSE_LENGTH cfg * sqrt 2))\<^sup>2),
         (t - endUpramp cfg) / (2 * (PULSE_LENGTH cfg)\<^sup>2))
      else (AMPLITUDE cfg, 0)) \<and>
   (0 \<le> LASER_NOFOCUS_CONSTANT cfg \<longrightarrow>
      (t < endUpramp cfg \<longrightarrow>
         envelope cfg t =
           AMPLITUDE cfg * exp (- 0.5 * ((t - endUpramp cfg) / (PULSE_LENGTH cfg * sqrt 2))\<^sup>2) \<and>
         integrationCorrectionFactor cfg t = (t - endUpramp cfg) / (2 * (PULSE_LENGTH cfg)\<^sup>2)) \<and>
      (t > startDownramp cfg \<longrightarrow>
         envelope cfg t =
           AMPLITUDE cfg * exp (- 0.5 * ((t - startDownramp cfg) / (PULSE_LENGTH cfg * sqrt 2))\<^sup>2) \<and>
         integrationCorrectionFactor cfg t = (t - startDownramp cfg) / (2 * (PULSE_LENGTH cfg)\<^sup>2)) \<and>
      (endUpramp cfg \<le> t \<and> t \<le> startDownramp cfg \<longrightarrow>
         envelope cfg t = AMPLITUDE cfg \<and> integrationCorrectionFactor cfg t = 0))"
proof -
  have bounds: "endUpramp cfg = 0.5 * RAMP_INIT cfg * PULSE_LENGTH cfg"
    "startDownramp cfg = endUpramp cfg + LASER_NOFOCUS_CONSTANT cfg"
    "runTime cfg currentStep = real (unat currentStep) * DELTA_T cfg"
    by (simp_all add: endUpramp_def startDownramp_def mue_def runTime_def)
  have chain: "(envelope cfg t, integrationCorrectionFactor cfg t) =
     (if t > startDownramp cfg then
        (AMPLITUDE cfg * exp (- 0.5 * ((t - startDownramp cfg) / (PULSE_LENGTH cfg * sqrt 2))\<^sup>2),
         (t - startDownramp cfg) / (2 * (PULSE_LENGTH cfg)\<^sup>2))
      else if t < endUpramp cfg then
        (AMPLITUDE cfg * exp (- 0.5 * ((t - endUpramp cfg) / (PULSE_LENGTH cfg * sqrt 2))\<^sup>2),
         (t - endUpramp cfg) / (2 * (PULSE_LENGTH cfg)\<^sup>2))
      else (AMPLITUDE cfg, 0))"
    unfolding envelope_def integrationCorrectionFactor_def envelopeAndCorrection_def Let_def
      exponent_square
    by (simp add: power2_eq_square)
  have disjoint: "\<not> (t > startDownramp cfg \<and> t < endUpramp cfg)"
    if "0 \<le> LASER_NOFOCUS_CONSTANT cfg"
    using that bounds(2) by linarith
  show ?thesis
    using bounds chain disjoint by (auto split: if_splits)
qed

text \<open>
  In \<open>three_regime_config\<close> step 0 lies in the upramp, step 2 on the inclusive end of the
  plateau and step 3 in the downramp.
\<close>

theorem laserLongitudinal_regimes_witness:
  "0 \<le> LASER_NOFOCUS_CONSTANT three_regime_config \<and>
   runTime three_regime_config 0 < endUpramp three_regime_config \<and>
   envelope three_regime_config (runTime three_regime_config 0) = 2 * exp (- (1 / 4)) \<and>
   integrationCorrectionFactor three_regime_config (runTime three_regime_config 0) = - (1 / 2) \<and>
   endUpramp three_regime_config \<le> runTime three_regime_config 2 \<and>
   runTime three_regime_config 2 \<le> startDownramp three_regime_config \<and>
   envelope three_regime_config (runTime three_regime_config 2) = 2 \<and>
   integrationCorrectionFactor three_regime_config (runTime three_regime_config 2) = 0 \<and>
   startDownramp three_regime_config < runTime three_regime_config 3 \<and>
   envelope three_regime_config (runTime three_regime_config 3) = 2 * exp (- (1 / 4)) \<and>
   integrationCorrectionFactor three_regime_config (runTime three_regime_config 3) = 1 / 2"
  using laserLongitudinal_regimes [of three_regime_config 0 "runTime three_regime_config 0"]
    laserLongitudinal_regimes [of three_regime_config 2 "runTime three_regime_config 2"]
    laserLongitudinal_regimes [of three_regime_config 3 "runTime three_regime_config 3"]
  by (simp add: three_regime_config_def runTime_def endUpramp_def startDownramp_def mue_def
      power_divide)

text \<open>
  The upramp formulas do not hold at every time before \<open>endUpramp\<close>: in \<open>overlap_config\<close> step 1 is
  at time \<open>3/4\<close>, before the end of the upramp (time 1) and after the start of the
  downramp (time 0). The source takes the downramp branch, and neither the envelope nor
  the correction factor is the upramp's.
\<close>

theorem laserLongitudinal_regimes_overlap:
  "runTime overlap_config 1 < endUpramp overlap_config \<and>
   envelope overlap_config (runTime overlap_config 1) \<noteq>
     AMPLITUDE overlap_config *
       exp (- 0.5 * ((runTime overlap_config 1 - endUpramp overlap_config)
                       / (PULSE_LENGTH overlap_config * sqrt 2))\<^sup>2) \<and>
   integrationCorrectionFactor overlap_config (runTime overlap_config 1) \<noteq>
     (runTime overlap_config 1 - endUpramp overlap_config)
       / (2 * (PULSE_LENGTH overlap_config)\<^sup>2)"
  by (simp add: overlap_config_def runTime_def endUpramp_def startDownramp_def mue_def
      envelope_def integrationCorrectionFactor_def envelopeAndCorrection_def power_divide)


subsection \<open>Continuity of the envelope at the plateau boundaries\<close>

text \<open>
  For a plateau of non-negative length the three branches fit into one expression: the
  distance to the plateau, \<open>max (t - startDownramp) 0 + min (t - endUpramp) 0\<close>, takes
  the place of the branch-specific difference.
\<close>

lemma envelope_closed_form:
  assumes "0 \<le> LASER_NOFOCUS_CONSTANT cfg"
  shows "envelope cfg =
    (\<lambda>t. AMPLITUDE cfg *
       exp (- 0.5 * ((max (t - startDownramp cfg) 0 + min (t - endUpramp cfg) 0)
                       * (1 / PULSE_LENGTH cfg / sqrt 2))\<^sup>2))"
proof
  fix t
  have le: "endUpramp cfg \<le> startDownramp cfg"
    using assms by (simp add: endUpramp_def startDownramp_def)
  consider (down) "t > startDownramp cfg" | (up) "t < endUpramp cfg"
    | (plateau) "endUpramp cfg \<le> t" "t \<le> startDownramp cfg"
    by linarith
  then show "envelope cfg t =
    AMPLITUDE cfg *
       exp (- 0.5 * ((max (t - startDownramp cfg) 0 + min (t - endUpramp cfg) 0)
                       * (1 / PULSE_LENGTH cfg / sqrt 2))\<^sup>2)"
  proof cases
    case down
    then have "\<not> t < endUpramp cfg" using le by linarith
    with down show ?thesis
      by (simp add: envelope_def envelopeAndCorrection_def Let_def power2_eq_square
          max_def min_def)
  next
    case up
    then have "\<not> t > startDownramp cfg" using le by linarith
    with up show ?thesis
      by (simp add: envelope_def envelopeAndCorrection_def Let_def power2_eq_square
          max_def min_def)
  next
    case plateau
    then show ?thesis
      by (simp add: envelope_def envelopeAndCorrection_def Let_def max_def min_def)
  qed
qed

lemma envelope_continuous:
  assumes "0 \<le> LASER_NOFOCUS_CONSTANT cfg"
  shows "isCont (envelope cfg) t"
  unfolding envelope_closed_form [OF assms]
  by (intro continuous_intros)

lemma ramp_formula_limit:
  fixes a A p :: real
  shows "((\<lambda>t. A * exp (- 0.5 * ((t - a) / (p * sqrt 2))\<^sup>2)) \<longlongrightarrow> A) (at a within S)"
proof -
  have eq: "(t - a) / (p * sqrt 2) = (t - a) * inverse (p * sqrt 2)" for t
    by (rule divide_inverse)
  have "isCont (\<lambda>t. A * exp (- 0.5 * ((t - a) * inverse (p * sqrt 2))\<^sup>2)) a"
    by (intro continuous_intros)
  then have "((\<lambda>t. A * exp (- 0.5 * ((t - a) * inverse (p * sqrt 2))\<^sup>2)) \<longlongrightarrow>
               A * exp (- 0.5 * ((a - a) * inverse (p * sqrt 2))\<^sup>2)) (at a within S)"
    using continuous_at_imp_continuous_at_within continuous_within by blast
  then have "((\<lambda>t. A * exp (- 0.5 * ((t - a) * inverse (p * sqrt 2))\<^sup>2)) \<longlongrightarrow> A)
               (at a within S)"
    by simp
  then show ?thesis
    unfolding eq .
qed

lemma envelope_double_eq:
  assumes "PULSE_LENGTH cfg \<noteq> 0"
  shows "envelope_double cfg = envelope cfg"
proof
  fix t
  show "envelope_double cfg t = envelope cfg t"
    using assms
    by (simp add: envelope_double_def envelope_def envelopeAndCorrection_def Let_def)
qed

lemma envelope_double_zero_pulse:
  assumes "PULSE_LENGTH cfg = 0"
  shows "t > startDownramp cfg \<Longrightarrow> envelope_double cfg t = 0"
    and "t \<le> startDownramp cfg \<Longrightarrow> endUpramp cfg \<le> t \<Longrightarrow> envelope_double cfg t = AMPLITUDE cfg"
  using assms by (simp_all add: envelope_double_def Let_def)

text \<open>
  C3 (as amended). For every configuration with \<open>LASER_NOFOCUS_CONSTANT \<ge> 0\<close>: at
  \<open>t = endUpramp\<close> and at \<open>t = startDownramp\<close> neither ramp test of the source succeeds
  (\<open>endUpramp \<le> startDownramp\<close>, and both tests are strict), so the envelope is
  \<open>AMPLITUDE\<close> and the correction factor is \<open>0\<close>. If moreover \<open>PULSE_LENGTH\<close> is not 0,
  the envelope is continuous at both points, its one-sided limits there are
  \<open>AMPLITUDE\<close>, and so are the limits of the upramp formula from the left of
  \<open>endUpramp\<close> and of the downramp formula from the right of \<open>startDownramp\<close>.
\<close>

theorem envelope_boundaries:
  assumes "0 \<le> LASER_NOFOCUS_CONSTANT cfg"
  shows "endUpramp cfg \<le> startDownramp cfg \<and>
     envelopeAndCorrection cfg (endUpramp cfg) = (AMPLITUDE cfg, 0) \<and>
     envelopeAndCorrection cfg (startDownramp cfg) = (AMPLITUDE cfg, 0) \<and>
     envelope_double cfg (endUpramp cfg) = AMPLITUDE cfg \<and>
     envelope_double cfg (startDownramp cfg) = AMPLITUDE cfg \<and>
     (PULSE_LENGTH cfg \<noteq> 0 \<longrightarrow>
        envelope_double cfg = envelope cfg \<and>
        isCont (envelope_double cfg) (endUpramp cfg) \<and>
        isCont (envelope_double cfg) (startDownramp cfg) \<and>
        (envelope_double cfg \<longlongrightarrow> AMPLITUDE cfg) (at_left (endUpramp cfg)) \<and>
        (envelope_double cfg \<longlongrightarrow> AMPLITUDE cfg) (at_right (endUpramp cfg)) \<and>
        (envelope_double cfg \<longlongrightarrow> AMPLITUDE cfg) (at_left (startDownramp cfg)) \<and>
        (envelope_double cfg \<longlongrightarrow> AMPLITUDE cfg) (at_right (startDownramp cfg)) \<and>
        ((\<lambda>t. AMPLITUDE cfg *
                exp (- 0.5 * ((t - endUpramp cfg) / (PULSE_LENGTH cfg * sqrt 2))\<^sup>2))
           \<longlongrightarrow> AMPLITUDE cfg) (at_left (endUpramp cfg)) \<and>
        ((\<lambda>t. AMPLITUDE cfg *
                exp (- 0.5 * ((t - startDownramp cfg) / (PULSE_LENGTH cfg * sqrt 2))\<^sup>2))
           \<longlongrightarrow> AMPLITUDE cfg) (at_right (startDownramp cfg)))"
proof -
  have le: "endUpramp cfg \<le> startDownramp cfg"
    using assms by (simp add: endUpramp_def startDownramp_def)
  have up: "envelopeAndCorrection cfg (endUpramp cfg) = (AMPLITUDE cfg, 0)"
    using le by (simp add: envelopeAndCorrection_def Let_def)
  have down: "envelopeAndCorrection cfg (startDownramp cfg) = (AMPLITUDE cfg, 0)"
    using le by (simp add: envelopeAndCorrection_def Let_def)
  have dvals: "envelope_double cfg (endUpramp cfg) = AMPLITUDE cfg"
    "envelope_double cfg (startDownramp cfg) = AMPLITUDE cfg"
    using le by (simp_all add: envelope_double_def Let_def)
  have cont: "envelope_double cfg = envelope cfg \<and>
        isCont (envelope_double cfg) (endUpramp cfg) \<and>
        isCont (envelope_double cfg) (startDownramp cfg) \<and>
        (envelope_double cfg \<longlongrightarrow> AMPLITUDE cfg) (at_left (endUpramp cfg)) \<and>
        (envelope_double cfg \<longlongrightarrow> AMPLITUDE cfg) (at_right (endUpramp cfg)) \<and>
        (envelope_double cfg \<longlongrightarrow> AMPLITUDE cfg) (at_left (startDownramp cfg)) \<and>
        (envelope_double cfg \<longlongrightarrow> AMPLITUDE cfg) (at_right (startDownramp cfg))"
    if nz: "PULSE_LENGTH cfg \<noteq> 0"
  proof -
    have eq: "envelope_double cfg = envelope cfg"
      using nz by (rule envelope_double_eq)
    have lim: "(envelope cfg \<longlongrightarrow> envelope cfg a) (at a within S)" for a S
      using envelope_continuous [OF assms, of a]
      using continuous_at_imp_continuous_at_within continuous_within by blast
    have vals: "envelope cfg (endUpramp cfg) = AMPLITUDE cfg"
      "envelope cfg (startDownramp cfg) = AMPLITUDE cfg"
      by (simp_all add: envelope_def up down)
    show ?thesis
      using envelope_continuous [OF assms] lim [of "endUpramp cfg"] lim [of "startDownramp cfg"]
      by (simp add: eq vals)
  qed
  have up_formula: "((\<lambda>t. AMPLITUDE cfg *
                exp (- 0.5 * ((t - endUpramp cfg) / (PULSE_LENGTH cfg * sqrt 2))\<^sup>2))
           \<longlongrightarrow> AMPLITUDE cfg) (at_left (endUpramp cfg))"
    by (rule ramp_formula_limit)
  have down_formula: "((\<lambda>t. AMPLITUDE cfg *
                exp (- 0.5 * ((t - startDownramp cfg) / (PULSE_LENGTH cfg * sqrt 2))\<^sup>2))
           \<longlongrightarrow> AMPLITUDE cfg) (at_right (startDownramp cfg))"
    by (rule ramp_formula_limit)
  show ?thesis
    using le up down dvals cont up_formula down_formula by blast
qed

theorem envelope_boundaries_witness:
  "0 \<le> LASER_NOFOCUS_CONSTANT three_regime_config \<and>
   PULSE_LENGTH three_regime_config \<noteq> 0 \<and>
   endUpramp three_regime_config = 1 \<and> startDownramp three_regime_config = 2 \<and>
   envelopeAndCorrection three_regime_config 1 = (2, 0) \<and>
   envelopeAndCorrection three_regime_config 2 = (2, 0) \<and>
   envelope_double three_regime_config 1 = 2 \<and>
   envelope_double three_regime_config 2 = 2 \<and>
   isCont (envelope_double three_regime_config) 1 \<and>
   isCont (envelope_double three_regime_config) 2 \<and>
   (envelope_double three_regime_config \<longlongrightarrow> 2) (at_left 1) \<and>
   (envelope_double three_regime_config \<longlongrightarrow> 2) (at_right 2)"
proof -
  have h: "0 \<le> LASER_NOFOCUS_CONSTANT three_regime_config"
    by (simp add: three_regime_config_def)
  have nz: "PULSE_LENGTH three_regime_config \<noteq> 0"
    by (simp add: three_regime_config_def)
  have e: "endUpramp three_regime_config = 1" "startDownramp three_regime_config = 2"
    "AMPLITUDE three_regime_config = 2"
    by (simp_all add: three_regime_config_def endUpramp_def startDownramp_def mue_def)
  show ?thesis
    using h nz e(1,2) envelope_boundaries [OF h, unfolded e] by blast
qed

text \<open>
  Without the condition on \<open>PULSE_LENGTH\<close> the continuity fails: in \<open>zero_pulse_config\<close>
  the plateau ends at time 1 with the envelope at 2, and at every later time the
  envelope is 0. The envelope is not continuous at \<open>startDownramp\<close> and its limit from
  the right is not the amplitude.
\<close>

theorem envelope_boundaries_zero_pulse:
  "0 \<le> LASER_NOFOCUS_CONSTANT zero_pulse_config \<and>
   envelope_double zero_pulse_config (startDownramp zero_pulse_config)
     = AMPLITUDE zero_pulse_config \<and>
   \<not> (envelope_double zero_pulse_config \<longlongrightarrow> AMPLITUDE zero_pulse_config)
        (at_right (startDownramp zero_pulse_config)) \<and>
   \<not> isCont (envelope_double zero_pulse_config) (startDownramp zero_pulse_config)"
proof -
  have e: "endUpramp zero_pulse_config = 0" "startDownramp zero_pulse_config = 1"
    "AMPLITUDE zero_pulse_config = 2" "PULSE_LENGTH zero_pulse_config = 0"
    "LASER_NOFOCUS_CONSTANT zero_pulse_config = 1"
    by (simp_all add: zero_pulse_config_def endUpramp_def startDownramp_def mue_def)
  have at_end: "envelope_double zero_pulse_config 1 = 2"
    using envelope_double_zero_pulse(2) [of zero_pulse_config 1] by (simp add: e)
  have after: "envelope_double zero_pulse_config t = 0" if "t > 1" for t
    using envelope_double_zero_pulse(1) [of zero_pulse_config t] that by (simp add: e)
  have "eventually (\<lambda>t. envelope_double zero_pulse_config t = 0) (at_right 1)"
    by (simp add: eventually_at_filter after)
  then have lim0: "(envelope_double zero_pulse_config \<longlongrightarrow> 0) (at_right 1)"
    by (rule tendsto_eventually)
  have no_lim: "\<not> (envelope_double zero_pulse_config \<longlongrightarrow> 2) (at_right 1)"
  proof
    assume "(envelope_double zero_pulse_config \<longlongrightarrow> 2) (at_right 1)"
    then have "(2 :: real) = 0"
      using lim0 by (rule tendsto_unique [OF trivial_limit_at_right_real])
    then show False by simp
  qed
  have no_cont: "\<not> isCont (envelope_double zero_pulse_config) 1"
  proof
    assume "isCont (envelope_double zero_pulse_config) 1"
    then have "(envelope_double zero_pulse_config \<longlongrightarrow> envelope_double zero_pulse_config 1)
                 (at_right 1)"
      using continuous_at_imp_continuous_at_within continuous_within by blast
    with no_lim show False
      by (simp add: at_end)
  qed
  show ?thesis
    using at_end no_lim no_cont by (simp add: e)
qed

subsection \<open>Field assembly\<close>

text \<open>The returned vector, with the let-bound locals of the source spelled out.\<close>

lemma laserLongitudinal_elong:
  "fst (laserLongitudinal cfg currentStep phase) =
     (let t = runTime cfg currentStep;
          e = envelope cfg t;
          icf = integrationCorrectionFactor cfg t;
          th = t_and_phase cfg t
      in if Polarisation cfg = LINEAR_X then
           \<lparr>comp_x = e * (sin th + cos th * icf), comp_y = 0, comp_z = 0\<rparr>
         else if Polarisation cfg = LINEAR_Z then
           \<lparr>comp_x = 0, comp_y = 0, comp_z = e * (sin th + cos th * icf)\<rparr>
         else if Polarisation cfg = CIRCULAR then
           \<lparr>comp_x = e / sqrt 2 * (sin th + cos th * icf), comp_y = 0,
            comp_z = e / sqrt 2 * (cos th - sin th * icf)\<rparr>
         else \<lparr>comp_x = 0, comp_y = 0, comp_z = 0\<rparr>)"
  by (simp add: laserLongitudinal_def Let_def float_X_def create_def envelope_def
      integrationCorrectionFactor_def split: prod.split)

text \<open>
  C2. With the carrier phase
  \<open>t_and_phase = 2 * pi * SPEED_OF_LIGHT / WAVE_LENGTH * (t - endUpramp) + LASER_PHASE\<close>
  at \<open>t = runTime cfg currentStep\<close>, the returned vector is
  \<open>(envelope * (sin \<theta> + cos \<theta> * ic), 0, 0)\<close> for \<open>LINEAR_X\<close>, the same value in the
  z component and zeros elsewhere for \<open>LINEAR_Z\<close>, and
  \<open>(envelope / sqrt 2 * (sin \<theta> + cos \<theta> * ic), 0, envelope / sqrt 2 * (cos \<theta> - sin \<theta> * ic))\<close>
  for \<open>CIRCULAR\<close>.
\<close>

theorem laserLongitudinal_polarisation:
  "t_and_phase cfg t =
     2 * pi * SPEED_OF_LIGHT cfg / WAVE_LENGTH cfg * (t - endUpramp cfg) + LASER_PHASE cfg \<and>
   (Polarisation cfg = LINEAR_X \<longrightarrow>
      fst (laserLongitudinal cfg currentStep phase) =
        \<lparr>comp_x = envelope cfg (runTime cfg currentStep) *
           (sin (t_and_phase cfg (runTime cfg currentStep)) +
            cos (t_and_phase cfg (runTime cfg currentStep)) *
              integrationCorrectionFactor cfg (runTime cfg currentStep)),
         comp_y = 0, comp_z = 0\<rparr>) \<and>
   (Polarisation cfg = LINEAR_Z \<longrightarrow>
      fst (laserLongitudinal cfg currentStep phase) =
        \<lparr>comp_x = 0, comp_y = 0,
         comp_z = envelope cfg (runTime cfg currentStep) *
           (sin (t_and_phase cfg (runTime cfg currentStep)) +
            cos (t_and_phase cfg (runTime cfg currentStep)) *
              integrationCorrectionFactor cfg (runTime cfg currentStep))\<rparr>) \<and>
   (Polarisation cfg = CIRCULAR \<longrightarrow>
      fst (laserLongitudinal cfg currentStep phase) =
        \<lparr>comp_x = envelope cfg (runTime cfg currentStep) / sqrt 2 *
           (sin (t_and_phase cfg (runTime cfg currentStep)) +
            cos (t_and_phase cfg (runTime cfg currentStep)) *
              integrationCorrectionFactor cfg (runTime cfg currentStep)),
         comp_y = 0,
         comp_z = envelope cfg (runTime cfg currentStep) / sqrt 2 *
           (cos (t_and_phase cfg (runTime cfg currentStep)) -
            sin (t_and_phase cfg (runTime cfg currentStep)) *
              integrationCorrectionFactor cfg (runTime cfg currentStep))\<rparr>)"
proof -
  have "t_and_phase cfg t =
     2 * pi * SPEED_OF_LIGHT cfg / WAVE_LENGTH cfg * (t - endUpramp cfg) + LASER_PHASE cfg"
    by (simp add: t_and_phase_def Let_def)
  then show ?thesis
    by (simp add: laserLongitudinal_elong Let_def)
qed

text \<open>
  In \<open>three_regime_config\<close> step 2 is on the plateau (envelope 2, correction factor 0)
  and the carrier phase there is \<open>pi / 2\<close>.
\<close>

lemma three_regime_step_2:
  "runTime (three_regime_config\<lparr>Polarisation := pol\<rparr>) 2 = 2"
  "t_and_phase (three_regime_config\<lparr>Polarisation := pol\<rparr>) 2 = pi / 2"
  "envelope (three_regime_config\<lparr>Polarisation := pol\<rparr>) 2 = 2"
  "integrationCorrectionFactor (three_regime_config\<lparr>Polarisation := pol\<rparr>) 2 = 0"
  by (simp_all add: three_regime_config_def runTime_def t_and_phase_def endUpramp_def
      startDownramp_def mue_def envelope_def integrationCorrectionFactor_def
      envelopeAndCorrection_def Let_def)

theorem laserLongitudinal_polarisation_witness:
  "fst (laserLongitudinal (three_regime_config\<lparr>Polarisation := LINEAR_X\<rparr>) 2 0) =
     \<lparr>comp_x = 2, comp_y = 0, comp_z = 0\<rparr> \<and>
   fst (laserLongitudinal (three_regime_config\<lparr>Polarisation := LINEAR_Z\<rparr>) 2 0) =
     \<lparr>comp_x = 0, comp_y = 0, comp_z = 2\<rparr> \<and>
   fst (laserLongitudinal (three_regime_config\<lparr>Polarisation := CIRCULAR\<rparr>) 2 0) =
     \<lparr>comp_x = 2 / sqrt 2, comp_y = 0, comp_z = 0\<rparr>"
  using
    laserLongitudinal_polarisation [of "three_regime_config\<lparr>Polarisation := LINEAR_X\<rparr>" 2 2 0]
    laserLongitudinal_polarisation [of "three_regime_config\<lparr>Polarisation := LINEAR_Z\<rparr>" 2 2 0]
    laserLongitudinal_polarisation [of "three_regime_config\<lparr>Polarisation := CIRCULAR\<rparr>" 2 2 0]
  by (simp add: three_regime_step_2)

text \<open>
  C10. The y component of the returned vector is 0 for every configuration, timestep
  and polarisation value, and when the polarisation value is none of \<open>LINEAR_X\<close>,
  \<open>LINEAR_Z\<close>, \<open>CIRCULAR\<close> the whole vector is \<open>(0, 0, 0)\<close>.
\<close>

theorem laserLongitudinal_y_zero:
  "comp_y (fst (laserLongitudinal cfg currentStep phase)) = 0 \<and>
   (Polarisation cfg \<noteq> LINEAR_X \<and> Polarisation cfg \<noteq> LINEAR_Z \<and>
    Polarisation cfg \<noteq> CIRCULAR \<longrightarrow>
      fst (laserLongitudinal cfg currentStep phase) = \<lparr>comp_x = 0, comp_y = 0, comp_z = 0\<rparr>)"
  by (simp add: laserLongitudinal_elong Let_def)

theorem laserLongitudinal_y_zero_witness:
  "Polarisation (three_regime_config\<lparr>Polarisation := UNNAMED 7\<rparr>) \<noteq> LINEAR_X \<and>
   Polarisation (three_regime_config\<lparr>Polarisation := UNNAMED 7\<rparr>) \<noteq> LINEAR_Z \<and>
   Polarisation (three_regime_config\<lparr>Polarisation := UNNAMED 7\<rparr>) \<noteq> CIRCULAR \<and>
   fst (laserLongitudinal (three_regime_config\<lparr>Polarisation := UNNAMED 7\<rparr>) 3 1) =
     \<lparr>comp_x = 0, comp_y = 0, comp_z = 0\<rparr> \<and>
   comp_y (fst (laserLongitudinal three_regime_config 3 1)) = 0"
  using laserLongitudinal_y_zero [of "three_regime_config\<lparr>Polarisation := UNNAMED 7\<rparr>" 3 1]
    laserLongitudinal_y_zero [of three_regime_config 3 1]
  by simp

subsection \<open>Output phase and transversal profile\<close>

text \<open>
  C6. For every configuration, timestep and incoming value of the phase parameter,
  \<^verbatim>\<open>laserLongitudinal\<close> leaves the output phase at exactly 0, whatever the polarisation
  and the temporal regime.
\<close>

theorem laserLongitudinal_phase_zero:
  "snd (laserLongitudinal cfg currentStep phase) = 0"
  by (simp add: laserLongitudinal_def Let_def float_X_def split: prod.split)

text \<open>
  C7. For every field vector and every triple of spatial coordinates,
  \<^verbatim>\<open>laserTransversal\<close> returns the vector unchanged.
\<close>

theorem laserTransversal_identity:
  "laserTransversal elong posX posY posZ = elong"
  by (simp add: laserTransversal_def)


section \<open>Properties of the momentum-component attribute\<close>

subsection \<open>Instantiation and metadata\<close>

lemma direction_cases:
  fixes d :: "64 word"
  shows "(d < 3) = (d = 0 \<or> d = 1 \<or> d = 2)"
proof
  assume "d < 3"
  then have "unat d < 3"
    by (simp add: word_less_nat_alt)
  then have "unat d = 0 \<or> unat d = 1 \<or> unat d = 2"
    by linarith
  then have "unat d = unat (0 :: 64 word) \<or> unat d = unat (1 :: 64 word) \<or>
             unat d = unat (2 :: 64 word)"
    by simp
  then show "d = 0 \<or> d = 1 \<or> d = 2"
    unfolding word_unat_eq_iff [symmetric] .
next
  assume "d = 0 \<or> d = 1 \<or> d = 2"
  then show "d < 3"
    by (auto simp add: word_less_nat_alt)
qed

text \<open>
  C9. Instantiating the attribute with an axis outside \<open>[0, 3)\<close> stops at a static
  assertion that carries the message
  \<^verbatim>\<open>Valid_directions_are_0_to_2_for_X_to_Z__in_fileOutput_param\<close>; with axis 0, 1 or 2
  both assertions pass and the instance exists. The first assertion, \<open>d \<ge> 0\<close> on an
  unsigned axis, passes for every axis. The check happens at instantiation only: the
  member functions given in the source, \<^verbatim>\<open>getUnitDimension\<close> and \<^verbatim>\<open>getName\<close>, return
  their value for every axis and have no error result.
\<close>

theorem instantiate_MomentumComponent_static:
  "instantiate_MomentumComponent d =
     (if d < 3 then Inr (MomentumComponent d)
      else Inl (static_assertion_failed
                  ''Valid_directions_are_0_to_2_for_X_to_Z__in_fileOutput_param'')) \<and>
   (d < 3) = (d = 0 \<or> d = 1 \<or> d = 2) \<and>
   PMACC_CASSERT_MSG ''Valid_directions_are_0_to_2_for_X_to_Z__in_fileOutput_param'' (d \<ge> 0)
     = Inr () \<and>
   PMACC_CASSERT_MSG ''Valid_directions_are_0_to_2_for_X_to_Z__in_fileOutput_param'' (d < 3)
     = (if d < 3 then Inr ()
        else Inl (static_assertion_failed
                    ''Valid_directions_are_0_to_2_for_X_to_Z__in_fileOutput_param'')) \<and>
   getUnitDimension (MomentumComponent d) = replicate 7 0 \<and>
   getName = ''particleMomentumComponent''"
  using direction_cases [of d]
  by (simp add: instantiate_MomentumComponent_def PMACC_CASSERT_MSG_def getUnitDimension_def
      getName_def)

text \<open>
  C8. For every axis, \<^verbatim>\<open>getUnitDimension\<close> returns a vector of exactly 7 entries, all
  of them 0.
\<close>

theorem getUnitDimension_zero:
  "length (getUnitDimension (MomentumComponent d)) = 7 \<and>
   getUnitDimension (MomentumComponent d) = [0, 0, 0, 0, 0, 0, 0]"
  by (simp add: getUnitDimension_def numeral_eq_Suc)

subsection \<open>Eligibility of a species\<close>

text \<open>
  C5. A species is eligible for the momentum-component attribute, whatever the axis, if
  and only if its frame declares both the position and the momentum identifier.
\<close>

theorem SpeciesEligibleForSolver_iff:
  "SpeciesEligibleForSolver sp (MomentumComponent d) \<longleftrightarrow>
     position \<in> set (FrameType sp) \<and> momentum \<in> set (FrameType sp)"
  by (simp add: SpeciesEligibleForSolver_def HasIdentifiers_def RequiredIdentifiers_def)

subsection \<open>The momentum ratio\<close>

lemma abs3_nonneg: "0 \<le> abs3 v"
  by (simp add: abs3_def)

lemma abs3_zero_iff: "abs3 v = 0 \<longleftrightarrow> comp_x v = 0 \<and> comp_y v = 0 \<and> comp_z v = 0"
proof -
  have "comp_x v * comp_x v + comp_y v * comp_y v + comp_z v * comp_z v = 0
        \<longleftrightarrow> comp_x v = 0 \<and> comp_y v = 0 \<and> comp_z v = 0"
    by (smt (verit) mult_eq_0_iff zero_le_square)
  moreover have "0 \<le> comp_x v * comp_x v + comp_y v * comp_y v + comp_z v * comp_z v"
    by simp
  ultimately show ?thesis
    by (simp add: abs3_def)
qed

lemma component_le_abs3:
  assumes "float3_index v i = Some c"
  shows "\<bar>c\<bar> \<le> abs3 v"
proof -
  have sq: "c * c \<le> comp_x v * comp_x v + comp_y v * comp_y v + comp_z v * comp_z v"
    using assms
    by (auto simp add: float3_index_def split: if_splits)
  have "\<bar>c\<bar> = sqrt (c * c)"
    by simp
  also have "\<dots> \<le> abs3 v"
    unfolding abs3_def using sq by (rule real_sqrt_le_mono)
  finally show ?thesis .
qed

lemma float3_index_valid:
  fixes d :: "64 word"
  assumes "d < 3"
  shows "\<exists>c. float3_index v (unat d) = Some c"
proof -
  have "unat d < 3"
    using assms by (simp add: word_less_nat_alt)
  then show ?thesis
    by (auto simp add: float3_index_def)
qed

text \<open>
  C4. For every particle, with momentum \<open>p\<close>, and every axis \<open>d < 3\<close>: the component
  \<open>p[d]\<close> exists and the attribute returns \<open>p[d] / |p|\<close> when \<open>|p| > 0\<close>, and \<open>0\<close>
  otherwise; \<open>|p| > 0\<close> fails only for the zero vector, where the result is exactly 0;
  the result lies in \<open>[-1, 1]\<close>.
\<close>

theorem MomentumComponent_call_ratio:
  fixes d :: "64 word"
  assumes "d < 3"
  shows "\<exists>c r. float3_index (particle_momentum p) (unat d) = Some c \<and>
           MomentumComponent_call (MomentumComponent d) p = Some r \<and>
           r = (if abs3 (particle_momentum p) > 0 then c / abs3 (particle_momentum p) else 0) \<and>
           (abs3 (particle_momentum p) > 0 \<or> particle_momentum p = create 0) \<and>
           (particle_momentum p = create 0 \<longrightarrow> r = 0) \<and>
           - 1 \<le> r \<and> r \<le> 1"
proof -
  obtain c where c: "float3_index (particle_momentum p) (unat d) = Some c"
    using float3_index_valid [OF assms] by blast
  define r where
    "r = (if abs3 (particle_momentum p) > 0 then c / abs3 (particle_momentum p) else 0)"
  have call: "MomentumComponent_call (MomentumComponent d) p = Some r"
    by (simp add: MomentumComponent_call_def Let_def c r_def)
  have zero: "abs3 (create 0) = 0"
    by (simp add: abs3_def create_def)
  have dich: "abs3 (particle_momentum p) > 0 \<or> particle_momentum p = create 0"
    using abs3_nonneg [of "particle_momentum p"] abs3_zero_iff [of "particle_momentum p"]
    by (cases "abs3 (particle_momentum p) = 0") (auto simp add: create_def)
  have rest: "particle_momentum p = create 0 \<longrightarrow> r = 0"
    by (simp add: r_def zero)
  have "\<bar>r\<bar> \<le> 1"
    using component_le_abs3 [OF c] by (simp add: r_def)
  then have "- 1 \<le> r \<and> r \<le> 1"
    by linarith
  with c call dich rest show ?thesis
    using r_def by blast
qed

lemma sqrt_25: "sqrt 25 = 5"
  by (rule real_sqrt_unique) simp_all

text \<open>
  The particle with momentum \<open>(3, 0, 4)\<close> has the ratios \<open>3/5\<close>, \<open>0\<close> and \<open>4/5\<close> along
  the three axes; the particle at rest has the ratio \<open>0\<close>.
\<close>

theorem MomentumComponent_call_ratio_witness:
  "(0 :: 64 word) < 3 \<and> (1 :: 64 word) < 3 \<and> (2 :: 64 word) < 3 \<and>
   MomentumComponent_call (MomentumComponent 0) particle_345 = Some (3 / 5) \<and>
   MomentumComponent_call (MomentumComponent 1) particle_345 = Some 0 \<and>
   MomentumComponent_call (MomentumComponent 2) particle_345 = Some (4 / 5) \<and>
   particle_momentum particle_rest = create 0 \<and>
   MomentumComponent_call (MomentumComponent 2) particle_rest = Some 0"
  using MomentumComponent_call_ratio [of 0 particle_345]
    MomentumComponent_call_ratio [of 1 particle_345]
    MomentumComponent_call_ratio [of 2 particle_345]
    MomentumComponent_call_ratio [of 2 particle_rest]
  by (auto simp add: particle_345_def particle_rest_def float3_index_def abs3_def sqrt_25
      create_def)

end
